theory Spec2Isabelle
  imports Complex_Main "HOL-Library.AList" "HOL-Library.Multiset"
begin

section \<open>Python values used by the dataset scripts\<close>

text \<open>
  The scripts are Python. Unbounded integers are \<^typ>\<open>int\<close>, a \<^verbatim>\<open>str\<close> is a
  \<^typ>\<open>string\<close> whose characters are ASCII code points, a \<^verbatim>\<open>dict\<close> is an
  association list in insertion order (\<^const>\<open>AList.update\<close> overwrites a key in place and
  appends a new key at the end, as a Python dict does), and a \<^verbatim>\<open>float\<close> is a
  \<^typ>\<open>real\<close>: the quotient of two integers is taken exactly, where Python rounds
  it to the nearest double. Comparisons, \<^verbatim>\<open>max\<close> and \<^verbatim>\<open>min\<close> are exact on both.
  An exception that leaves a function is the left summand of its result.
\<close>

datatype py_error = ValueError | ZeroDivisionError | ReError | TemplateEscape

type_synonym ('k, 'v) dict = "('k \<times> 'v) list"

definition is_digit :: "char \<Rightarrow> bool" where
  "is_digit c \<longleftrightarrow> c \<in> set ''0123456789''"

definition is_alnum :: "char \<Rightarrow> bool" where
  "is_alnum c \<longleftrightarrow>
     c \<in> set ''ABCDEFGHIJKLMNOPQRSTUVWXYZabcdefghijklmnopqrstuvwxyz0123456789''"

definition is_space :: "char \<Rightarrow> bool" where
  \<comment> \<open>\<^verbatim>\<open>str.isspace\<close> on ASCII: tab, LF, VT, FF, CR, FS, GS, RS, US and the blank\<close>
  "is_space c \<longleftrightarrow>
     c \<in> {CHR 0x09, CHR 0x0A, CHR 0x0B, CHR 0x0C, CHR 0x0D,
          CHR 0x1C, CHR 0x1D, CHR 0x1E, CHR 0x1F, CHR 0x20}"

definition strip :: "string \<Rightarrow> string" where
  \<comment> \<open>\<^verbatim>\<open>s.strip()\<close>\<close>
  "strip s = rev (dropWhile is_space (rev (dropWhile is_space s)))"

fun split_on :: "char \<Rightarrow> string \<Rightarrow> string list" where
  \<comment> \<open>\<^verbatim>\<open>s.split(sep)\<close> for a separator of one character\<close>
  "split_on sep [] = [[]]"
| "split_on sep (c # cs) =
     (if c = sep then [] # split_on sep cs
      else (case split_on sep cs of [] \<Rightarrow> [[c]] | w # ws \<Rightarrow> (c # w) # ws))"

fun file_lines :: "string \<Rightarrow> string list" where
  \<comment> \<open>\<^verbatim>\<open>for line in f\<close>: every line keeps its terminating LF; a last line may lack it\<close>
  "file_lines [] = []"
| "file_lines (c # cs) =
     (if c = CHR 0x0A then [c] # file_lines cs
      else (case file_lines cs of [] \<Rightarrow> [[c]] | l # ls \<Rightarrow> (c # l) # ls))"

definition digit_val :: "char \<Rightarrow> nat" where
  \<comment> \<open>the position of a digit among the ten digits\<close>
  "digit_val c = length (takeWhile (\<lambda>d. d \<noteq> c) ''0123456789'')"

definition nat_of_digits :: "string \<Rightarrow> nat" where
  "nat_of_digits ds = foldl (\<lambda>acc c. 10 * acc + digit_val c) 0 ds"

fun after_digit :: "string \<Rightarrow> bool" where
  \<comment> \<open>what may follow a digit of an integer literal: digits, each underscore between two digits\<close>
  "after_digit [] = True"
| "after_digit [c] = is_digit c"
| "after_digit (c # d # ds) =
     (if c = CHR ''_'' then is_digit d \<and> after_digit ds else is_digit c \<and> after_digit (d # ds))"

definition valid_digits :: "string \<Rightarrow> bool" where
  "valid_digits s = (case s of [] \<Rightarrow> False | c # cs \<Rightarrow> is_digit c \<and> after_digit cs)"

definition py_int :: "string \<Rightarrow> py_error + int" where
  \<comment> \<open>\<^verbatim>\<open>int(s.strip())\<close>: one sign, then digits, an underscore only between two digits;
      anything else raises\<close>
  "py_int s =
     (let t = strip s;
          neg = (case t of [] \<Rightarrow> False | c # _ \<Rightarrow> c = CHR ''-'');
          body = (case t of [] \<Rightarrow> [] | c # cs \<Rightarrow> if c = CHR ''-'' \<or> c = CHR ''+'' then cs else t)
      in if valid_digits body
         then Inr ((if neg then - 1 else 1) * int (nat_of_digits (filter (\<lambda>c. c \<noteq> CHR ''_'') body)))
         else Inl ValueError)"

definition digit_char :: "nat \<Rightarrow> char" where
  "digit_char d = ''0123456789'' ! d"

function str_nat :: "nat \<Rightarrow> string" where
  "str_nat n = (if n < 10 then [digit_char n] else str_nat (n div 10) @ [digit_char (n mod 10)])"
  by pat_completeness auto
termination
  by (relation "measure id") auto

declare str_nat.simps [simp del]

definition str_int :: "int \<Rightarrow> string" where
  \<comment> \<open>\<^verbatim>\<open>str(i)\<close>, also what an f-string prints for an integer\<close>
  "str_int i = (if i < 0 then ''-'' @ str_nat (nat (- i)) else str_nat (nat i))"

definition round_half_even :: "real \<Rightarrow> int" where
  "round_half_even x =
     (let f = \<lfloor>x\<rfloor>; d = x - of_int f
      in if d < 1 / 2 then f else if 1 / 2 < d then f + 1 else if even f then f else f + 1)"

definition zfill :: "nat \<Rightarrow> string \<Rightarrow> string" where
  "zfill w s = replicate (w - length s) (CHR ''0'') @ s"

definition fmt6 :: "real \<Rightarrow> string" where
  \<comment> \<open>\<^verbatim>\<open>f"{x:.6f}"\<close>: six decimals, the nearest one, a tie to the even digit\<close>
  "fmt6 x =
     (let n = nat (round_half_even (\<bar>x\<bar> * 1000000));
          body = str_nat (n div 1000000) @ ''.'' @ zfill 6 (str_nat (n mod 1000000))
      in if x < 0 then ''-'' @ body else body)"

section \<open>url-yolo-converter.py: annotation conversion\<close>

record annotation =
  class_id :: int
  x1 :: int
  y1 :: int
  x2 :: int
  y2 :: int

record yolo_box =
  box_class :: int
  x_center :: real
  y_center :: real
  width :: real
  height :: real

definition parse_annotation_format :: "string \<Rightarrow> py_error + annotation option" where
  \<comment> \<open>the comprehension raises at the first field that \<^verbatim>\<open>int\<close> rejects; fewer than six
      values give \<^verbatim>\<open>None\<close>\<close>
  "parse_annotation_format annotation_line =
     (let fields = map py_int (split_on (CHR '','') annotation_line)
      in if \<exists>f \<in> set fields. f = Inl ValueError then Inl ValueError
         else (case map projr fields of
                 c # a # b # d # e # _ # _ \<Rightarrow>
                   Inr (Some \<lparr>class_id = c, x1 = a, y1 = b, x2 = d, y2 = e\<rparr>)
               | _ \<Rightarrow> Inr None))"

definition remap_class :: "(int, int) dict option \<Rightarrow> int \<Rightarrow> int" where
  \<comment> \<open>\<^verbatim>\<open>if class_mapping and class_id in class_mapping\<close>\<close>
  "remap_class class_mapping c =
     (case class_mapping of
        None \<Rightarrow> c
      | Some m \<Rightarrow> (case map_of m c of None \<Rightarrow> c | Some c' \<Rightarrow> c'))"

definition clamp01 :: "real \<Rightarrow> real" where
  \<comment> \<open>\<^verbatim>\<open>max(0, min(1, v))\<close>\<close>
  "clamp01 v = max 0 (min 1 v)"

definition convert_box ::
  "annotation \<Rightarrow> int \<Rightarrow> int \<Rightarrow> (int, int) dict option \<Rightarrow> py_error + yolo_box" where
  \<comment> \<open>lines 78 to 94 of \<^verbatim>\<open>convert_to_yolo_format\<close>: the four numbers before they are printed\<close>
  "convert_box a img_width img_height class_mapping =
     (if img_width = 0 \<or> img_height = 0 then Inl ZeroDivisionError
      else Inr \<lparr>box_class = remap_class class_mapping (class_id a),
                x_center = clamp01 (real_of_int (x1 a + x2 a) / 2 / real_of_int img_width),
                y_center = clamp01 (real_of_int (y1 a + y2 a) / 2 / real_of_int img_height),
                width = clamp01 (real_of_int (x2 a - x1 a) / real_of_int img_width),
                height = clamp01 (real_of_int (y2 a - y1 a) / real_of_int img_height)\<rparr>)"

definition format_box :: "yolo_box \<Rightarrow> string" where
  "format_box b =
     str_int (box_class b) @ '' '' @ fmt6 (x_center b) @ '' '' @ fmt6 (y_center b)
       @ '' '' @ fmt6 (width b) @ '' '' @ fmt6 (height b)"

definition convert_to_yolo_format ::
  "annotation \<Rightarrow> int \<Rightarrow> int \<Rightarrow> (int, int) dict option \<Rightarrow> py_error + string" where
  "convert_to_yolo_format a img_width img_height class_mapping =
     (case convert_box a img_width img_height class_mapping of
        Inl e \<Rightarrow> Inl e
      | Inr b \<Rightarrow> Inr (format_box b))"

definition example_annotation :: annotation where
  "example_annotation = \<lparr>class_id = 10, x1 = 100, y1 = 200, x2 = 300, y2 = 400\<rparr>"

section \<open>Regular expressions of the scripts\<close>

text \<open>
  Every pattern of the scripts is a sequence of literals and of greedy character classes, and
  the character that has to follow a class is never in the class, so the longest run is the
  only candidate and a match at a position is computed from left to right.
  \<^verbatim>\<open>re.search\<close> takes the leftmost position that matches.
\<close>

definition strip_prefix :: "string \<Rightarrow> string \<Rightarrow> string option" where
  "strip_prefix p s = (if take (length p) s = p then Some (drop (length p) s) else None)"

definition plus1 :: "(char \<Rightarrow> bool) \<Rightarrow> string \<Rightarrow> (string \<times> string) option" where
  \<comment> \<open>a class with \<^verbatim>\<open>+\<close>: the longest run, which must not be empty, and the rest\<close>
  "plus1 P s = (if takeWhile P s = [] then None else Some (takeWhile P s, dropWhile P s))"

definition match_meta_at :: "string \<Rightarrow> (string \<times> string \<times> string) option" where
  \<comment> \<open>\<^verbatim>\<open>image-(\d+)\.jpg,\s*(\d+),\s*(\d+)\<close> at the start of the string\<close>
  "match_meta_at s =
     Option.bind (strip_prefix ''image-'' s) (\<lambda>r1.
     Option.bind (plus1 is_digit r1) (\<lambda>(num, r2).
     Option.bind (strip_prefix ''.jpg,'' r2) (\<lambda>r3.
     Option.bind (plus1 is_digit (dropWhile is_space r3)) (\<lambda>(w, r4).
     Option.bind (strip_prefix '','' r4) (\<lambda>r5.
     Option.bind (plus1 is_digit (dropWhile is_space r5)) (\<lambda>(h, r6).
       Some (num, w, h)))))))"

fun search_meta :: "string \<Rightarrow> (string \<times> string \<times> string) option" where
  "search_meta [] = match_meta_at []"
| "search_meta (c # cs) =
     (case match_meta_at (c # cs) of Some m \<Rightarrow> Some m | None \<Rightarrow> search_meta cs)"

section \<open>url-yolo-converter.py: one annotation file\<close>

definition path_join :: "string \<Rightarrow> string \<Rightarrow> string" where
  \<comment> \<open>\<^verbatim>\<open>os.path.join\<close> of two components\<close>
  "path_join a b =
     (if b \<noteq> [] \<and> hd b = CHR ''/'' then b
      else if a = [] \<or> last a = CHR ''/'' then a @ b
      else a @ ''/'' @ b)"

definition basename :: "string \<Rightarrow> string" where
  \<comment> \<open>\<^verbatim>\<open>os.path.basename\<close>: what follows the last slash\<close>
  "basename p = rev (takeWhile (\<lambda>c. c \<noteq> CHR ''/'') (rev p))"

fun join_lines :: "string list \<Rightarrow> string" where
  \<comment> \<open>\<^verbatim>\<open>'\n'.join(xs)\<close>\<close>
  "join_lines [] = []"
| "join_lines [x] = x"
| "join_lines (x # y # ys) = x @ [CHR 0x0A] @ join_lines (y # ys)"

record img_entry =
  meta :: string
  annotations :: "string list"

record network =
  get_actual_image_url :: "string \<Rightarrow> string \<Rightarrow> string"
  url_ok :: "string \<Rightarrow> bool"

fun convert_lines ::
  "string list \<Rightarrow> int \<Rightarrow> int \<Rightarrow> (int, int) dict option \<Rightarrow> py_error + string list" where
  \<comment> \<open>lines 144 to 149: the loop over the annotation lines of one image\<close>
  "convert_lines [] w h cm = Inr []"
| "convert_lines (l # ls) w h cm =
     (case parse_annotation_format l of
        Inl e \<Rightarrow> Inl e
      | Inr None \<Rightarrow> convert_lines ls w h cm
      | Inr (Some a) \<Rightarrow>
          (case convert_to_yolo_format a w h cm of
             Inl e \<Rightarrow> Inl e
           | Inr y \<Rightarrow>
               (case convert_lines ls w h cm of Inl e \<Rightarrow> Inl e | Inr ys \<Rightarrow> Inr (y # ys))))"

record converted =
  image_label_pairs :: "(string \<times> string) list"
  label_files :: "(string \<times> string) list"

fun process_yaml_to_yolo ::
  "network \<Rightarrow> img_entry list \<Rightarrow> string \<Rightarrow> string \<Rightarrow> (int, int) dict option \<Rightarrow> bool
     \<Rightarrow> py_error + converted" where
  \<comment> \<open>the loop over \<^verbatim>\<open>data['images']\<close>; \<^const>\<open>label_files\<close> lists the label files
      written, with their content, in the order of writing\<close>
  "process_yaml_to_yolo net [] base_url output_dir cm verify_urls =
     Inr \<lparr>image_label_pairs = [], label_files = []\<rparr>"
| "process_yaml_to_yolo net (e # es) base_url output_dir cm verify_urls =
     (case search_meta (meta e) of
        None \<Rightarrow> process_yaml_to_yolo net es base_url output_dir cm verify_urls
      | Some (image_number, w, h) \<Rightarrow>
          (let image_url = get_actual_image_url net base_url image_number
           in if verify_urls \<and> \<not> url_ok net image_url
              then process_yaml_to_yolo net es base_url output_dir cm verify_urls
              else (case convert_lines (annotations e)
                           (int (nat_of_digits w)) (int (nat_of_digits h)) cm of
                      Inl err \<Rightarrow> Inl err
                    | Inr [] \<Rightarrow> process_yaml_to_yolo net es base_url output_dir cm verify_urls
                    | Inr (y # ys) \<Rightarrow>
                        (let label_path = path_join output_dir (''image-'' @ image_number @ ''.txt'')
                         in case process_yaml_to_yolo net es base_url output_dir cm verify_urls of
                              Inl err \<Rightarrow> Inl err
                            | Inr r \<Rightarrow>
                                Inr \<lparr>image_label_pairs = (image_url, label_path) # image_label_pairs r,
                                     label_files = (label_path, join_lines (y # ys)) # label_files r\<rparr>))))"

section \<open>url-yolo-converter.py: the dataset\<close>

fun shuffle_from :: "(nat \<Rightarrow> nat) \<Rightarrow> nat \<Rightarrow> nat \<Rightarrow> 'a list \<Rightarrow> 'a list" where
  \<comment> \<open>\<^verbatim>\<open>random.shuffle\<close>: for i from the last index down to 1, exchange x[i] with x[j],
      j the next draw below i + 1; \<open>rng k\<close> is the k-th draw of the run\<close>
  "shuffle_from rng k 0 xs = xs"
| "shuffle_from rng k (Suc i) xs =
     (let j = rng k mod (Suc i + 1)
      in shuffle_from rng (Suc k) i (xs[Suc i := xs ! j, j := xs ! Suc i]))"

definition shuffle :: "(nat \<Rightarrow> nat) \<Rightarrow> nat \<Rightarrow> 'a list \<Rightarrow> 'a list" where
  "shuffle rng k xs = shuffle_from rng k (length xs - 1) xs"

definition py_trunc :: "real \<Rightarrow> int" where
  \<comment> \<open>\<^verbatim>\<open>int(x)\<close> of a float: towards zero\<close>
  "py_trunc x = (if 0 \<le> x then \<lfloor>x\<rfloor> else \<lceil>x\<rceil>)"

definition slice_index :: "'a list \<Rightarrow> int \<Rightarrow> nat" where
  \<comment> \<open>a slice bound: a negative one counts from the end, and both ends are clipped\<close>
  "slice_index xs k = (if 0 \<le> k then min (nat k) (length xs) else length xs - nat (- k))"

definition slice_to :: "'a list \<Rightarrow> int \<Rightarrow> 'a list" where
  "slice_to xs k = take (slice_index xs k) xs"

definition slice_from :: "'a list \<Rightarrow> int \<Rightarrow> 'a list" where
  "slice_from xs k = drop (slice_index xs k) xs"

record run_config =
  annotation_files :: "(string, string) dict"
  read_yaml :: "string \<Rightarrow> img_entry list option"
  base_url_template :: "string \<Rightarrow> string"
  net :: network
  class_mapping :: "(int, int) dict option"
  split_ratio :: real
  verify_urls :: bool
  rng :: "nat \<Rightarrow> nat"
  output_dir :: string

record assembly =
  train_data :: "(string \<times> string) list"
  val_data :: "(string \<times> string) list"
  draws :: nat

definition imageset_pairs :: "run_config \<Rightarrow> string \<Rightarrow> py_error + (string \<times> string) list option" where
  \<comment> \<open>lines 190 to 211: \<open>Inr None\<close> is a \<^verbatim>\<open>continue\<close> (no annotation file, or it cannot be
      read); \<^const>\<open>read_yaml\<close> is the file's parsed content\<close>
  "imageset_pairs cfg imageset_id =
     (case map_of (annotation_files cfg) imageset_id of
        None \<Rightarrow> Inr None
      | Some annotation_file \<Rightarrow>
          (case read_yaml cfg annotation_file of
             None \<Rightarrow> Inr None
           | Some entries \<Rightarrow>
               (case process_yaml_to_yolo (net cfg) entries (base_url_template cfg imageset_id)
                       (path_join (path_join (output_dir cfg) ''temp_labels'') imageset_id)
                       (class_mapping cfg) (verify_urls cfg) of
                  Inl e \<Rightarrow> Inl e
                | Inr r \<Rightarrow> Inr (Some (image_label_pairs r)))))"

definition relabel :: "string \<Rightarrow> string \<times> string \<Rightarrow> string \<times> string" where
  \<comment> \<open>lines 221 to 224: the pair kept has the label's path in the split's directory\<close>
  "relabel labels_dir p = (fst p, path_join labels_dir (basename (snd p)))"

definition split_pairs :: "run_config \<Rightarrow> (string \<times> string) list \<Rightarrow> assembly \<Rightarrow> assembly" where
  \<comment> \<open>lines 214 to 230\<close>
  "split_pairs cfg pairs st =
     (let shuffled = shuffle (rng cfg) (draws st) pairs;
          split_idx = py_trunc (real (length shuffled) * split_ratio cfg);
          train_pairs = slice_to shuffled split_idx;
          val_pairs = slice_from shuffled split_idx;
          labels = path_join (output_dir cfg) ''labels''
      in \<lparr>train_data = train_data st @ map (relabel (path_join labels ''train'')) train_pairs,
          val_data = val_data st @ map (relabel (path_join labels ''val'')) val_pairs,
          draws = draws st + (length pairs - 1)\<rparr>)"

fun assemble :: "run_config \<Rightarrow> string list \<Rightarrow> assembly \<Rightarrow> py_error + assembly" where
  \<comment> \<open>the loop over the imagesets, lines 189 to 230\<close>
  "assemble cfg [] st = Inr st"
| "assemble cfg (imageset_id # rest) st =
     (case imageset_pairs cfg imageset_id of
        Inl e \<Rightarrow> Inl e
      | Inr None \<Rightarrow> assemble cfg rest st
      | Inr (Some pairs) \<Rightarrow> assemble cfg rest (split_pairs cfg pairs st))"

record dataset_yaml =
  path :: string
  train :: string
  val :: string
  test :: string
  nc :: nat
  names :: "(nat, string) dict"

definition manifest :: "run_config \<Rightarrow> dataset_yaml" where
  \<comment> \<open>lines 242 to 249; \<^verbatim>\<open>os.path.abspath\<close> is left out\<close>
  "manifest cfg =
     \<lparr>path = output_dir cfg, train = ''train.txt'', val = ''val.txt'', test = '''',
      nc = (case class_mapping cfg of
              None \<Rightarrow> 2
            | Some m \<Rightarrow> if m = [] then 2 else length m),
      names = enumerate 0 [''red'', ''blue'']\<rparr>"

record dataset =
  train_txt :: string
  val_txt :: string
  dataset_yaml_of :: dataset_yaml
  lists :: assembly

definition url_list :: "(string \<times> string) list \<Rightarrow> string" where
  "url_list pairs = concat (map (\<lambda>p. fst p @ [CHR 0x0A]) pairs)"

definition create_url_dataset :: "run_config \<Rightarrow> string list \<Rightarrow> py_error + dataset" where
  "create_url_dataset cfg imagesets =
     (case assemble cfg imagesets \<lparr>train_data = [], val_data = [], draws = 0\<rparr> of
        Inl e \<Rightarrow> Inl e
      | Inr st \<Rightarrow>
          Inr \<lparr>train_txt = url_list (train_data st), val_txt = url_list (val_data st),
               dataset_yaml_of = manifest cfg, lists = st\<rparr>)"

definition main_class_mapping :: "(int, int) dict" where
  \<comment> \<open>lines 334 to 338 of \<^verbatim>\<open>main\<close>\<close>
  "main_class_mapping = [(1, 1), (3, 1), (10, 0)]"



definition plain_network :: network where
  \<comment> \<open>a host without listings: \<^verbatim>\<open>get_actual_image_url\<close> ends in its best guess\<close>
  "plain_network =
     \<lparr>get_actual_image_url = (\<lambda>base_url image_number. base_url @ ''image-'' @ image_number @ ''.jpg''),
      url_ok = (\<lambda>_. True)\<rparr>"

definition one_image :: "string \<Rightarrow> img_entry list" where
  "one_image image_number =
     [\<lparr>meta = ''image-'' @ image_number @ ''.jpg, 1920, 1080'',
       annotations = [''10, 100, 200, 300, 400, 0'']\<rparr>]"

definition two_set_config :: run_config where
  \<comment> \<open>two imagesets with one annotated image each, split in halves\<close>
  "two_set_config =
     \<lparr>annotation_files = [(''145'', ''a.yaml''), (''146'', ''b.yaml'')],
      read_yaml = (\<lambda>p. if p = ''a.yaml'' then Some (one_image ''0000601'')
                        else if p = ''b.yaml'' then Some (one_image ''0000777'') else None),
      base_url_template = (\<lambda>i. ''https://prism-static.aruw.org/images/1_'' @ i @ ''/''),
      net = plain_network,
      class_mapping = Some main_class_mapping,
      split_ratio = 1 / 2,
      verify_urls = False,
      rng = (\<lambda>_. 0),
      output_dir = ''out''\<rparr>"

definition bad_entries :: "img_entry list" where
  \<comment> \<open>the second annotation line of the first image has a field that is not an integer\<close>
  "bad_entries =
     [\<lparr>meta = ''image-0000601.jpg, 1920, 1080'',
       annotations = [''10, 100, 200, 300, 400, 0'', ''0, abc, 360, 1020, 374, 0'']\<rparr>,
      \<lparr>meta = ''image-0000602.jpg, 1920, 1080'',
       annotations = [''1, 1004, 360, 1020, 374, 0'']\<rparr>]"

definition short_entries :: "img_entry list" where
  \<comment> \<open>the same, with a second line of too few fields\<close>
  "short_entries =
     [\<lparr>meta = ''image-0000601.jpg, 1920, 1080'',
       annotations = [''10, 100, 200, 300, 400, 0'', ''0, 1004, 360'']\<rparr>,
      \<lparr>meta = ''image-0000602.jpg, 1920, 1080'',
       annotations = [''1, 1004, 360, 1020, 374, 0'']\<rparr>]"


definition bad_config :: run_config where
  \<comment> \<open>\<^const>\<open>two_set_config\<close> with \<^const>\<open>bad_entries\<close> in the first annotation file\<close>
  "bad_config =
     two_set_config\<lparr>read_yaml := (\<lambda>p. if p = ''a.yaml'' then Some bad_entries
                                      else if p = ''b.yaml'' then Some (one_image ''0000777'')
                                      else None)\<rparr>"

section \<open>url-fixer.py: the suffix cache\<close>

type_synonym suffixes = "(string, (string, string) dict) dict"

definition set_suffix :: "suffixes \<Rightarrow> string \<Rightarrow> string \<Rightarrow> string \<Rightarrow> suffixes" where
  \<comment> \<open>\<^verbatim>\<open>suffixes[imageset_id][image_number] = suffix\<close>, the inner dict made when it is missing
      (lines 27 to 29, and line 66 on a \<^verbatim>\<open>defaultdict\<close>)\<close>
  "set_suffix suffixes imageset_id image_number suffix =
     AList.update imageset_id
       (AList.update image_number suffix
          (case map_of suffixes imageset_id of None \<Rightarrow> [] | Some inner \<Rightarrow> inner))
       suffixes"

definition lookup_suffix :: "suffixes \<Rightarrow> string \<Rightarrow> string \<Rightarrow> string option" where
  \<comment> \<open>\<^verbatim>\<open>imageset_id in suffixes and image_number in suffixes[imageset_id]\<close>, and the token\<close>
  "lookup_suffix suffixes imageset_id image_number =
     (case map_of suffixes imageset_id of
        None \<Rightarrow> None
      | Some inner \<Rightarrow> map_of inner image_number)"

definition load_line :: "suffixes \<Rightarrow> string \<Rightarrow> suffixes" where
  \<comment> \<open>lines 24 to 29: a line that has not three fields is passed over\<close>
  "load_line suffixes line =
     (case split_on (CHR '','') (strip line) of
        [imageset_id, image_number, suffix] \<Rightarrow> set_suffix suffixes imageset_id image_number suffix
      | _ \<Rightarrow> suffixes)"

definition load_cache :: "string \<Rightarrow> suffixes" where
  "load_cache content = foldl load_line [] (file_lines content)"

definition cache_line :: "string \<Rightarrow> string \<Rightarrow> string \<Rightarrow> string" where
  \<comment> \<open>line 78, without the line end\<close>
  "cache_line imageset_id image_number suffix =
     imageset_id @ '','' @ image_number @ '','' @ suffix"

definition save_cache :: "suffixes \<Rightarrow> string" where
  \<comment> \<open>lines 76 to 78: the text written to the cache file\<close>
  "save_cache suffixes =
     concat (map (\<lambda>(imageset_id, inner).
               concat (map (\<lambda>(image_number, suffix).
                         cache_line imageset_id image_number suffix @ [CHR 0x0A]) inner))
             suffixes)"

definition match_listing_at :: "string \<Rightarrow> ((string \<times> string) \<times> string) option" where
  \<comment> \<open>\<^verbatim>\<open>image-(\d+)_([A-Za-z0-9]+)\.jpg\<close> at the start: the two groups, and what follows\<close>
  "match_listing_at s =
     Option.bind (strip_prefix ''image-'' s) (\<lambda>r1.
     Option.bind (plus1 is_digit r1) (\<lambda>(image_number, r2).
     Option.bind (strip_prefix ''_'' r2) (\<lambda>r3.
     Option.bind (plus1 is_alnum r3) (\<lambda>(suffix, r4).
     Option.bind (strip_prefix ''.jpg'' r4) (\<lambda>r5.
       Some ((image_number, suffix), r5))))))"

function findall_listing :: "string \<Rightarrow> (string \<times> string) list" where
  \<comment> \<open>\<^verbatim>\<open>re.findall\<close>: the matches from left to right, the search going on after each match\<close>
  "findall_listing [] = []"
| "findall_listing (c # cs) =
     (case match_listing_at (c # cs) of
        None \<Rightarrow> findall_listing cs
      | Some (m, rest) \<Rightarrow> m # findall_listing rest)"
  by pat_completeness auto
termination
proof (relation "measure length")
  fix c cs x2 m rest
  assume "match_listing_at (c # cs) = Some x2" and "(m, rest) = x2"
  then have m: "match_listing_at (c # cs) = Some (m, rest)" by simp
  have sp: "length r + length p = length s" if "strip_prefix p s = Some r" for p s r
  proof -
    from that have t: "take (length p) s = p" and r: "r = drop (length p) s"
      by (auto simp: strip_prefix_def split: if_splits)
    from t have "length (take (length p) s) = length p" by (rule arg_cong)
    then have "length p \<le> length s" by (simp add: min_def split: if_splits)
    then show ?thesis using r by simp
  qed
  have pl: "length r \<le> length s" if "plus1 P s = Some (a, r)" for P s a r
    using that by (auto simp: plus1_def length_dropWhile_le split: if_splits)
  from m obtain r1 r2 r3 r4 a b where
    1: "strip_prefix ''image-'' (c # cs) = Some r1" and
    2: "plus1 is_digit r1 = Some (a, r2)" and
    3: "strip_prefix ''_'' r2 = Some r3" and
    4: "plus1 is_alnum r3 = Some (b, r4)" and
    5: "strip_prefix ''.jpg'' r4 = Some rest"
    by (auto simp: match_listing_at_def bind_eq_Some_conv)
  have "length rest < length (c # cs)"
    using sp [OF 1] pl [OF 2] sp [OF 3] pl [OF 4] sp [OF 5] by simp
  then show "(rest, c # cs) \<in> measure length" by simp
qed simp_all

definition match_base_at :: "string \<Rightarrow> string option" where
  \<comment> \<open>\<^verbatim>\<open>images/1_(\d+)/?$\<close> at the start; \<^verbatim>\<open>$\<close> is the end, or a last line feed\<close>
  "match_base_at s =
     Option.bind (strip_prefix ''images/1_'' s) (\<lambda>r1.
     Option.bind (plus1 is_digit r1) (\<lambda>(imageset_id, r2).
       if r2 = [] \<or> r2 = ''/'' \<or> r2 = [CHR 0x0A] \<or> r2 = [CHR ''/'', CHR 0x0A]
       then Some imageset_id else None))"

fun search_base :: "string \<Rightarrow> string option" where
  "search_base [] = match_base_at []"
| "search_base (c # cs) =
     (case match_base_at (c # cs) of Some m \<Rightarrow> Some m | None \<Rightarrow> search_base cs)"

definition rsplit_head :: "string \<Rightarrow> string" where
  \<comment> \<open>\<^verbatim>\<open>s.rsplit('/', 1)[0]\<close>\<close>
  "rsplit_head s =
     (if CHR ''/'' \<in> set s then rev (tl (dropWhile (\<lambda>c. c \<noteq> CHR ''/'') (rev s))) else s)"

definition predefined_imagesets :: "string list" where
  "predefined_imagesets =
     [''145'', ''146'', ''147'', ''148'', ''149'', ''152'', ''153'', ''154'', ''158'', ''175'']"

definition scrape_listing :: "suffixes \<Rightarrow> string \<Rightarrow> string \<Rightarrow> suffixes" where
  \<comment> \<open>lines 61 to 66\<close>
  "scrape_listing suffixes imageset_id directory_listing =
     foldl (\<lambda>acc m. set_suffix acc imageset_id (fst m) (snd m)) suffixes
       (findall_listing directory_listing)"

record resolution =
  suffixes_of :: suffixes
  cache_disk :: "string \<Rightarrow> string option"
  listing_requests :: "string list"

fun scrape_imagesets ::
  "(string \<Rightarrow> string option) \<Rightarrow> string \<Rightarrow> string list \<Rightarrow> suffixes \<times> string list
     \<Rightarrow> suffixes \<times> string list" where
  \<comment> \<open>the loop of lines 53 to 70, with the URLs opened so far; \<open>urlopen\<close> gives the decoded
      page, or nothing when the request or the decoding raises\<close>
  "scrape_imagesets urlopen base_url [] st = st"
| "scrape_imagesets urlopen base_url (imageset_id # rest) st =
     (let imageset_url = base_url @ ''/1_'' @ imageset_id @ ''/'';
          opened = snd st @ [imageset_url]
      in case urlopen imageset_url of
           None \<Rightarrow> scrape_imagesets urlopen base_url rest (fst st, opened)
         | Some directory_listing \<Rightarrow>
             scrape_imagesets urlopen base_url rest
               (scrape_listing (fst st) imageset_id directory_listing, opened))"

definition get_image_suffixes ::
  "(string \<Rightarrow> string option) \<Rightarrow> (string \<Rightarrow> string option) \<Rightarrow> string \<Rightarrow> string option
     \<Rightarrow> resolution" where
  \<comment> \<open>\<open>disk\<close> maps the paths that exist to the text of the file; an empty path counts as
      no cache file, as \<^verbatim>\<open>None\<close> does\<close>
  "get_image_suffixes urlopen disk base_url cache_file =
     (let cached = (case cache_file of
                      None \<Rightarrow> None
                    | Some p \<Rightarrow> if p = [] then None else disk p)
      in case cached of
           Some content \<Rightarrow>
             \<lparr>suffixes_of = load_cache content, cache_disk = disk, listing_requests = []\<rparr>
         | None \<Rightarrow>
             (let plan = (case search_base base_url of
                            Some imageset_id \<Rightarrow>
                              ([imageset_id],
                               rsplit_head (if base_url \<noteq> [] \<and> last base_url = CHR ''/''
                                            then butlast base_url else base_url))
                          | None \<Rightarrow> (predefined_imagesets, base_url));
                  found = scrape_imagesets urlopen (snd plan) (fst plan) ([], [])
              in \<lparr>suffixes_of = fst found,
                  cache_disk = (case cache_file of
                                  None \<Rightarrow> disk
                                | Some p \<Rightarrow> if p = [] then disk
                                            else disk(p \<mapsto> save_cache (fst found))),
                  listing_requests = snd found\<rparr>))"

section \<open>url-fixer.py: rewriting a URL list\<close>


definition suffixed_url :: "string \<Rightarrow> string \<Rightarrow> string \<Rightarrow> string" where
  \<comment> \<open>the replacement \<^verbatim>\<open>\1_<suffix>.jpg\<close> of one match\<close>
  "suffixed_url imageset_id image_number suffix =
     ''images/1_'' @ imageset_id @ ''/image-'' @ image_number @ ''_'' @ suffix @ ''.jpg''"

definition match_url_at :: "string \<Rightarrow> (string \<times> string \<times> string) option" where
  \<comment> \<open>\<^verbatim>\<open>images/1_(\d+)/image-(\d+)\.jpg\<close> at the start: the two numbers, and what follows\<close>
  "match_url_at s =
     Option.bind (strip_prefix ''images/1_'' s) (\<lambda>r1.
     Option.bind (plus1 is_digit r1) (\<lambda>(imageset_id, r2).
     Option.bind (strip_prefix ''/image-'' r2) (\<lambda>r3.
     Option.bind (plus1 is_digit r3) (\<lambda>(image_number, r4).
     Option.bind (strip_prefix ''.jpg'' r4) (\<lambda>r5.
       Some (imageset_id, image_number, r5))))))"

fun search_url :: "string \<Rightarrow> (string \<times> string) option" where
  \<comment> \<open>\<^verbatim>\<open>re.search(...).groups()\<close>\<close>
  "search_url [] = None"
| "search_url (c # cs) =
     (case match_url_at (c # cs) of
        Some (imageset_id, image_number, _) \<Rightarrow> Some (imageset_id, image_number)
      | None \<Rightarrow> search_url cs)"

function re_sub_url :: "string \<Rightarrow> string \<Rightarrow> string" where
  \<comment> \<open>\<^verbatim>\<open>re.sub\<close> with the pattern \<^verbatim>\<open>(images/1_\d+/image-\d+)\.jpg\<close>: every match, from left to
      right, gets the suffix\<close>
  "re_sub_url suffix [] = []"
| "re_sub_url suffix (c # cs) =
     (case match_url_at (c # cs) of
        None \<Rightarrow> c # re_sub_url suffix cs
      | Some (imageset_id, image_number, rest) \<Rightarrow>
          suffixed_url imageset_id image_number suffix @ re_sub_url suffix rest)"
  by pat_completeness auto
termination
proof (relation "measure (\<lambda>(suffix, s). length s)")
  fix suffix :: string and c cs x2 imageset_id y image_number rest
  assume "match_url_at (c # cs) = Some x2" and "(imageset_id, y) = x2"
    and "(image_number, rest) = y"
  then have m: "match_url_at (c # cs) = Some (imageset_id, image_number, rest)" by simp
  have sp: "length r + length p = length s" if "strip_prefix p s = Some r" for p s r
  proof -
    from that have t: "take (length p) s = p" and r: "r = drop (length p) s"
      by (auto simp: strip_prefix_def split: if_splits)
    from t have "length (take (length p) s) = length p" by (rule arg_cong)
    then have "length p \<le> length s" by (simp add: min_def split: if_splits)
    then show ?thesis using r by simp
  qed
  have pl: "length r \<le> length s" if "plus1 P s = Some (a, r)" for P s a r
    using that by (auto simp: plus1_def length_dropWhile_le split: if_splits)
  from m obtain r1 r2 r3 r4 where
    1: "strip_prefix ''images/1_'' (c # cs) = Some r1" and
    2: "plus1 is_digit r1 = Some (imageset_id, r2)" and
    3: "strip_prefix ''/image-'' r2 = Some r3" and
    4: "plus1 is_digit r3 = Some (image_number, r4)" and
    5: "strip_prefix ''.jpg'' r4 = Some rest"
    by (auto simp: match_url_at_def bind_eq_Some_conv)
  have "length rest < length (c # cs)"
    using sp [OF 1] pl [OF 2] sp [OF 3] pl [OF 4] sp [OF 5] by simp
  then show "((suffix, rest), suffix, c # cs) \<in> measure (\<lambda>(suffix, s). length s)" by simp
qed simp_all

definition first_escape :: "string \<Rightarrow> char option" where
  \<comment> \<open>the character after the first backslash of the replacement \<^verbatim>\<open>\1_<suffix>.jpg\<close>,
      past the group reference\<close>
  "first_escape suffix =
     (case dropWhile (\<lambda>c. c \<noteq> CHR 0x5C) (suffix @ ''.jpg'') of
        _ # c # _ \<Rightarrow> Some c
      | _ \<Rightarrow> None)"

definition bad_escape :: "char \<Rightarrow> bool" where
  \<comment> \<open>an ASCII letter that is no escape of a replacement template: \<^verbatim>\<open>re.error\<close>\<close>
  "bad_escape c \<longleftrightarrow>
     c \<in> set ''ABCDEFGHIJKLMNOPQRSTUVWXYZcdehijklmopqsuwxyz''"

definition update_line :: "suffixes \<Rightarrow> string \<Rightarrow> py_error + string" where
  \<comment> \<open>lines 97 to 118 for one stripped line. The replacement is a template of \<^verbatim>\<open>re\<close>: a
      backslash in the token starts an escape there. A letter that is no escape raises
      \<^verbatim>\<open>re.error\<close>; the other escapes (a control character, a group reference) are not
      followed here, and \<^const>\<open>TemplateEscape\<close> stands for them\<close>
  "update_line image_suffixes line =
     (case search_url line of
        None \<Rightarrow> Inr line
      | Some (imageset_id, image_number) \<Rightarrow>
          (case lookup_suffix image_suffixes imageset_id image_number of
             None \<Rightarrow> Inr line
           | Some suffix \<Rightarrow>
               (case first_escape suffix of
                  None \<Rightarrow> Inr (re_sub_url suffix line)
                | Some c \<Rightarrow> if bad_escape c then Inl ReError else Inl TemplateEscape)))"







definition example_cache_text :: string where
  "example_cache_text = ''145,0000601,EGD3NF'' @ [CHR 0x0A]"

definition example_disk :: "string \<Rightarrow> string option" where
  "example_disk = Map.empty(''image_suffixes.cache'' \<mapsto> example_cache_text)"

definition twice_seen_text :: string where
  \<comment> \<open>a cache file with two lines for one image\<close>
  "twice_seen_text = ''145,0000601,AAA'' @ [CHR 0x0A] @ ''145,0000601,BBB'' @ [CHR 0x0A]"

definition no_network :: "string \<Rightarrow> string option" where
  "no_network url = None"

definition once_seen_text :: string where
  "once_seen_text = ''145,0000601,AAA'' @ [CHR 0x0A]"






section \<open>download.py\<close>

datatype response = Response nat string | Raised

datatype message =
  AlreadyDownloaded string | Downloaded string | Failed string nat | Error string

record fetch_state =
  files :: "string \<Rightarrow> string option"
  fetched :: "string list"
  printed :: "message list"

definition url_filename :: "string \<Rightarrow> string" where
  \<comment> \<open>\<^verbatim>\<open>os.path.basename(url.split('?')[0])\<close>\<close>
  "url_filename url = basename (case split_on (CHR ''?'') url of [] \<Rightarrow> [] | p # _ \<Rightarrow> p)"

definition destination :: "string \<Rightarrow> string \<Rightarrow> string" where
  "destination image_dir url = path_join image_dir (url_filename url)"

definition download_image ::
  "(string \<Rightarrow> response) \<Rightarrow> string \<Rightarrow> fetch_state \<Rightarrow> string \<Rightarrow> fetch_state" where
  \<comment> \<open>lines 16 to 33; \<open>get\<close> is \<^verbatim>\<open>requests.get\<close>, \<^const>\<open>files\<close> maps each path that exists
      to its content, \<^const>\<open>fetched\<close> lists the URLs requested and \<^const>\<open>printed\<close> the
      messages\<close>
  "download_image get image_dir st url =
     (let filename = url_filename url;
          filepath = path_join image_dir filename
      in if files st filepath \<noteq> None
         then st\<lparr>printed := printed st @ [AlreadyDownloaded filename]\<rparr>
         else (case get url of
                 Raised \<Rightarrow>
                   st\<lparr>fetched := fetched st @ [url], printed := printed st @ [Error url]\<rparr>
               | Response status_code content \<Rightarrow>
                   if status_code = 200
                   then st\<lparr>files := (files st)(filepath \<mapsto> content),
                           fetched := fetched st @ [url],
                           printed := printed st @ [Downloaded filename]\<rparr>
                   else st\<lparr>fetched := fetched st @ [url],
                           printed := printed st @ [Failed url status_code]\<rparr>))"

definition download_images ::
  "(string \<Rightarrow> response) \<Rightarrow> string \<Rightarrow> string list \<Rightarrow> fetch_state \<Rightarrow> fetch_state" where
  \<comment> \<open>\<^verbatim>\<open>executor.map(download_image, urls)\<close>, one URL after the other in some order\<close>
  "download_images get image_dir urls st = foldl (download_image get image_dir) st urls"

definition example_files :: "string \<Rightarrow> string option" where
  "example_files = Map.empty(''datasets/url_dataset/images/train/image-0000601_EGD3NF.jpg'' \<mapsto> ''old'')"

definition example_get :: "string \<Rightarrow> response" where
  "example_get url = Response 200 ''new''"

section \<open>Evaluation rules\<close>

lemma str_nat_small: "n < 10 \<Longrightarrow> str_nat n = [digit_char n]"
  by (simp add: str_nat.simps)

lemma str_nat_large:
  "10 \<le> n \<Longrightarrow> str_nat n = str_nat (n div 10) @ [digit_char (n mod 10)]"
  by (subst str_nat.simps) simp

lemmas fmt_eval =
  fmt6_def round_half_even_def Let_def str_nat_small str_nat_large digit_char_def zfill_def
  str_int_def

section \<open>Normalised boxes\<close>




text \<open>
  C2 (as stated). The annotation with class 10 and corners (100, 200), (300, 400) in a
  1920 by 1080 image, under the class mapping {10: 0}, is claimed to give the label line
  \<^verbatim>\<open>0 0.104167 0.184259 0.104167 0.185185\<close>. The code does not print that line: the
  second number is ((200 + 400) / 2) / 1080, which is 0.277778.
\<close>

theorem example_label_line_counterexample:
  "convert_to_yolo_format example_annotation 1920 1080 (Some [(10, 0)])
     \<noteq> Inr ''0 0.104167 0.184259 0.104167 0.185185''"
  by (simp add: convert_to_yolo_format_def convert_box_def format_box_def example_annotation_def
      remap_class_def clamp01_def fmt_eval)

text \<open>
  C2 (amended). The same conversion produces exactly the six-decimal label line
  \<^verbatim>\<open>0 0.104167 0.277778 0.104167 0.185185\<close>, and the four numbers printed are
  ((x1 + x2) / 2) / width, ((y1 + y2) / 2) / height, (x2 - x1) / width and
  (y2 - y1) / height.
\<close>

theorem example_label_line:
  "convert_to_yolo_format example_annotation 1920 1080 (Some [(10, 0)])
     = Inr ''0 0.104167 0.277778 0.104167 0.185185''
   \<and> convert_box example_annotation 1920 1080 (Some [(10, 0)])
     = Inr \<lparr>box_class = 0,
            x_center = ((100 + 300) / 2) / 1920, y_center = ((200 + 400) / 2) / 1080,
            width = (300 - 100) / 1920, height = (400 - 200) / 1080\<rparr>"
  by (simp add: convert_to_yolo_format_def convert_box_def format_box_def example_annotation_def
      remap_class_def clamp01_def fmt_eval)

section \<open>The dataset assembly\<close>

lemmas re_eval = match_meta_at_def strip_prefix_def plus1_def is_digit_def is_space_def
lemmas int_eval = parse_annotation_format_def py_int_def strip_def is_space_def valid_digits_def
  is_digit_def nat_of_digits_def digit_val_def















lemma convert_ok:
  "w \<noteq> 0 \<Longrightarrow> h \<noteq> 0 \<Longrightarrow> convert_to_yolo_format a w h cm
     = Inr (format_box \<lparr>box_class = remap_class cm (class_id a),
                x_center = clamp01 (real_of_int (x1 a + x2 a) / 2 / real_of_int w),
                y_center = clamp01 (real_of_int (y1 a + y2 a) / 2 / real_of_int h),
                width = clamp01 (real_of_int (x2 a - x1 a) / real_of_int w),
                height = clamp01 (real_of_int (y2 a - y1 a) / real_of_int h)\<rparr>)"
  by (simp add: convert_to_yolo_format_def convert_box_def)

lemma parse_good: "parse_annotation_format ''10, 100, 200, 300, 400, 0''
   = Inr (Some \<lparr>class_id = 10, x1 = 100, y1 = 200, x2 = 300, y2 = 400\<rparr>)"
  by (simp add: int_eval)

lemma parse_good2: "\<exists>a. parse_annotation_format ''1, 1004, 360, 1020, 374, 0'' = Inr (Some a)"
  by (simp add: int_eval)

lemma parse_bad: "parse_annotation_format ''0, abc, 360, 1020, 374, 0'' = Inl ValueError"
  by (simp add: int_eval)

lemma parse_short: "parse_annotation_format ''0, 1004, 360'' = Inr None"
  by (simp add: int_eval)

lemma meta_eval:
  "search_meta ''image-0000601.jpg, 1920, 1080'' = Some (''0000601'', ''1920'', ''1080'')"
  "search_meta ''image-0000602.jpg, 1920, 1080'' = Some (''0000602'', ''1920'', ''1080'')"
  "search_meta ''image-0000777.jpg, 1920, 1080'' = Some (''0000777'', ''1920'', ''1080'')"
  by (simp_all add: re_eval)

declare search_meta.simps [simp del]

lemma dims: "nat_of_digits ''1920'' = 1920" "nat_of_digits ''1080'' = 1080"
  by (simp_all add: nat_of_digits_def digit_val_def)

lemma bad_aborts:
  "process_yaml_to_yolo plain_network bad_entries b out cm False = Inl ValueError"
  by (simp add: bad_entries_def meta_eval dims parse_good parse_bad convert_ok Let_def)

lemma short_skipped:
  "map_sum id image_label_pairs (process_yaml_to_yolo plain_network short_entries ''u/'' ''out'' cm False)
     = Inr [(''u/image-0000601.jpg'', ''out/image-0000601.txt''),
            (''u/image-0000602.jpg'', ''out/image-0000602.txt'')]"
  using parse_good2
  by (auto simp add: short_entries_def meta_eval dims parse_good parse_short convert_ok
      plain_network_def path_join_def Let_def)

lemma pairs_145:
  "imageset_pairs two_set_config ''145''
     = Inr (Some [(''https://prism-static.aruw.org/images/1_145/image-0000601.jpg'',
                   ''out/temp_labels/145/image-0000601.txt'')])"
  by (simp add: imageset_pairs_def two_set_config_def one_image_def meta_eval dims parse_good
      convert_ok plain_network_def path_join_def Let_def)

lemma pairs_146:
  "imageset_pairs two_set_config ''146''
     = Inr (Some [(''https://prism-static.aruw.org/images/1_146/image-0000777.jpg'',
                   ''out/temp_labels/146/image-0000777.txt'')])"
  by (simp add: imageset_pairs_def two_set_config_def one_image_def meta_eval dims parse_good
      convert_ok plain_network_def path_join_def Let_def)

lemma two_set_cfg: "split_ratio two_set_config = 1 / 2" "output_dir two_set_config = ''out''"
  "class_mapping two_set_config = Some main_class_mapping"
  by (simp_all add: two_set_config_def)

lemma two_set_run:
  "create_url_dataset two_set_config [''145'', ''146'']
     = Inr \<lparr>train_txt = [],
            val_txt = ''https://prism-static.aruw.org/images/1_145/image-0000601.jpg'' @ [CHR 0x0A]
              @ ''https://prism-static.aruw.org/images/1_146/image-0000777.jpg'' @ [CHR 0x0A],
            dataset_yaml_of = manifest two_set_config,
            lists = \<lparr>train_data = [],
              val_data = [(''https://prism-static.aruw.org/images/1_145/image-0000601.jpg'',
                           ''out/labels/val/image-0000601.txt''),
                          (''https://prism-static.aruw.org/images/1_146/image-0000777.jpg'',
                           ''out/labels/val/image-0000777.txt'')],
              draws = 0\<rparr>\<rparr>"
  by (simp add: create_url_dataset_def pairs_145 pairs_146 split_pairs_def shuffle_def two_set_cfg
      py_trunc_def slice_to_def slice_from_def slice_index_def relabel_def basename_def
      path_join_def url_list_def Let_def)


lemma bad_run: "create_url_dataset bad_config [''145'', ''146''] = Inl ValueError"
  by (simp add: create_url_dataset_def imageset_pairs_def bad_config_def two_set_config_def
      bad_aborts)

lemma manifest_two: "nc (manifest two_set_config) = 3"
   "names (manifest two_set_config) = [(0, ''red''), (1, ''blue'')]"
  by (simp_all add: manifest_def two_set_cfg main_class_mapping_def)





text \<open>
  C7. An annotation line that does not have the expected shape is to be skipped alone, the
  rest of the batch being converted. A line with too few fields is skipped in this way, but
  a line with a field that is not an integer makes \<^verbatim>\<open>int\<close> raise ValueError, which
  nothing catches: the conversion of the annotation file and the whole assembly run end with
  that exception.
\<close>

theorem non_integer_field_aborts:
  "parse_annotation_format ''0, abc, 360, 1020, 374, 0'' = Inl ValueError
   \<and> process_yaml_to_yolo plain_network bad_entries base_url out cm False = Inl ValueError
   \<and> create_url_dataset bad_config [''145'', ''146''] = Inl ValueError
   \<and> parse_annotation_format ''0, 1004, 360'' = Inr None
   \<and> map_sum id image_label_pairs
        (process_yaml_to_yolo plain_network short_entries ''u/'' ''out'' cm False)
       = Inr [(''u/image-0000601.jpg'', ''out/image-0000601.txt''),
              (''u/image-0000602.jpg'', ''out/image-0000602.txt'')]"
  by (simp add: parse_bad bad_aborts bad_run parse_short short_skipped)

text \<open>
  C9. The manifest's \<^verbatim>\<open>nc\<close> is to equal the number of entries of \<^verbatim>\<open>names\<close>. With
  the class mapping of \<^verbatim>\<open>main\<close>, {1: 1, 3: 1, 10: 0}, the manifest has \<^verbatim>\<open>nc\<close> = 3, the
  number of keys of the mapping, and the two names red and blue.
\<close>

theorem manifest_nc_counts_mapping_keys:
  "map_sum id (\<lambda>d. (nc (dataset_yaml_of d), names (dataset_yaml_of d)))
      (create_url_dataset two_set_config [''145'', ''146''])
     = Inr (3, [(0, ''red''), (1, ''blue'')])
   \<and> class_mapping two_set_config = Some main_class_mapping
   \<and> nc (manifest two_set_config) \<noteq> length (names (manifest two_set_config))"
  by (simp add: two_set_run manifest_two two_set_cfg)

section \<open>The image fetcher\<close>

lemma split_on_head: "\<exists>ws. split_on sep s = takeWhile (\<lambda>c. c \<noteq> sep) s # ws"
  by (induction s) (auto split: list.splits)

lemma url_filename_query:
  "url_filename url = basename (takeWhile (\<lambda>c. c \<noteq> CHR ''?'') url)"
  using split_on_head [of "CHR ''?''" url] by (auto simp: url_filename_def)

lemma download_image_keeps:
  "files st p = Some c \<Longrightarrow> files (download_image get d st u) p = Some c"
  by (auto simp: download_image_def Let_def split: response.splits)

lemma download_image_fetched:
  "u' \<in> set (fetched (download_image get d st u)) \<Longrightarrow>
     u' \<in> set (fetched st) \<or> (u' = u \<and> files st (destination d u) = None)"
  by (auto simp: download_image_def destination_def Let_def split: response.splits if_splits)

lemma download_image_printed:
  "m \<in> set (printed st) \<Longrightarrow> m \<in> set (printed (download_image get d st u))"
  by (auto simp: download_image_def Let_def split: response.splits)

lemma download_image_skips:
  "files st (destination d u) = Some c \<Longrightarrow>
     download_image get d st u = st\<lparr>printed := printed st @ [AlreadyDownloaded (url_filename u)]\<rparr>"
  by (simp add: download_image_def destination_def Let_def)

lemma download_images_keeps:
  "files st p = Some c \<Longrightarrow> files (download_images get d urls st) p = Some c"
  unfolding download_images_def
  by (induction urls arbitrary: st) (simp_all add: download_image_keeps)

lemma download_images_printed:
  "m \<in> set (printed st) \<Longrightarrow> m \<in> set (printed (download_images get d urls st))"
  unfolding download_images_def
  by (induction urls arbitrary: st) (simp_all add: download_image_printed)

lemma download_images_fetched:
  "files st (destination d u) = Some c \<Longrightarrow> u \<notin> set (fetched st) \<Longrightarrow>
     u \<notin> set (fetched (download_images get d urls st))"
  unfolding download_images_def
proof (induction urls arbitrary: st)
  case Nil
  then show ?case by simp
next
  case (Cons a urls)
  have "files (download_image get d st a) (destination d u) = Some c"
    using Cons.prems(1) by (rule download_image_keeps)
  moreover have "u \<notin> set (fetched (download_image get d st a))"
    using Cons.prems download_image_fetched [of u get d st a] by auto
  ultimately show ?case using Cons.IH by simp
qed

lemma download_images_message:
  "files st (destination d u) = Some c \<Longrightarrow> u \<in> set urls \<Longrightarrow>
     AlreadyDownloaded (url_filename u) \<in> set (printed (download_images get d urls st))"
proof (induction urls arbitrary: st)
  case Nil
  then show ?case by simp
next
  case (Cons a urls)
  have k: "files (download_image get d st a) (destination d u) = Some c"
    using Cons.prems(1) by (rule download_image_keeps)
  show ?case
  proof (cases "a = u")
    case True
    have "AlreadyDownloaded (url_filename u) \<in> set (printed (download_image get d st u))"
      using download_image_skips [OF Cons.prems(1), of get] by simp
    then show ?thesis
      using True download_images_printed [of _ "download_image get d st u" get d urls]
      by (simp add: download_images_def)
  next
    case False
    then have "u \<in> set urls" using Cons.prems(2) by simp
    from Cons.IH [OF k this] show ?thesis by (simp add: download_images_def)
  qed
qed

text \<open>
  C8. For every URL of the fetch list whose destination path exists before the fetch, the
  fetcher makes no request for that URL, leaves the content of the existing file as it was,
  and reports the URL as already downloaded; the destination is the fetch directory joined
  with the basename of the URL cut at its first question mark. The URLs are taken one after
  the other, in any order of the list.
\<close>

theorem existing_file_skipped:
  assumes "files st (destination image_dir url) = Some content"
    and "url \<in> set urls" and "url \<notin> set (fetched st)"
  shows "files (download_images get image_dir urls st) (destination image_dir url) = Some content
       \<and> url \<notin> set (fetched (download_images get image_dir urls st))
       \<and> AlreadyDownloaded (url_filename url) \<in> set (printed (download_images get image_dir urls st))
       \<and> destination image_dir url
           = path_join image_dir (basename (takeWhile (\<lambda>c. c \<noteq> CHR ''?'') url))"
  using assms download_images_keeps download_images_fetched download_images_message
  by (simp add: destination_def url_filename_query)

lemma example_destination:
  "destination ''datasets/url_dataset/images/train''
      ''https://prism-static.aruw.org/images/1_145/image-0000601_EGD3NF.jpg?v=2''
     = ''datasets/url_dataset/images/train/image-0000601_EGD3NF.jpg''"
  by (simp add: destination_def url_filename_def basename_def path_join_def)

theorem existing_file_skipped_witness:
  "files (download_images example_get ''datasets/url_dataset/images/train''
            [''https://prism-static.aruw.org/images/1_145/image-0000601_EGD3NF.jpg?v=2'']
            \<lparr>files = example_files, fetched = [], printed = []\<rparr>)
      ''datasets/url_dataset/images/train/image-0000601_EGD3NF.jpg'' = Some ''old''
   \<and> fetched (download_images example_get ''datasets/url_dataset/images/train''
            [''https://prism-static.aruw.org/images/1_145/image-0000601_EGD3NF.jpg?v=2'']
            \<lparr>files = example_files, fetched = [], printed = []\<rparr>) = []
   \<and> printed (download_images example_get ''datasets/url_dataset/images/train''
            [''https://prism-static.aruw.org/images/1_145/image-0000601_EGD3NF.jpg?v=2'']
            \<lparr>files = example_files, fetched = [], printed = []\<rparr>)
       = [AlreadyDownloaded ''image-0000601_EGD3NF.jpg'']"
proof -
  let ?u = "''https://prism-static.aruw.org/images/1_145/image-0000601_EGD3NF.jpg?v=2''"
  let ?d = "''datasets/url_dataset/images/train''"
  let ?st = "\<lparr>files = example_files, fetched = [], printed = []\<rparr>"
  have f: "files ?st (destination ?d ?u) = Some ''old''"
    by (simp add: example_destination example_files_def)
  have n: "url_filename ?u = ''image-0000601_EGD3NF.jpg''"
    by (simp add: url_filename_def basename_def)
  have r: "download_images example_get ?d [?u] ?st
      = ?st\<lparr>printed := [AlreadyDownloaded ''image-0000601_EGD3NF.jpg'']\<rparr>"
    using download_image_skips [OF f, of example_get] by (simp add: download_images_def n)
  have t: "files (download_images example_get ?d [?u] ?st) (destination ?d ?u) = Some ''old''"
  proof -
    have i: "?u \<in> set [?u]" by simp
    have nf: "?u \<notin> set (fetched ?st)" by simp
    show ?thesis by (rule existing_file_skipped [OF f i nf, THEN conjunct1])
  qed
  then have "files (download_images example_get ?d [?u] ?st)
      ''datasets/url_dataset/images/train/image-0000601_EGD3NF.jpg'' = Some ''old''"
    by (simp only: example_destination)
  then show ?thesis by (simp add: r)
qed

section \<open>The suffix cache\<close>

lemma lookup_set_suffix:
  "lookup_suffix (set_suffix c i n s) i' n'
     = (if i' = i \<and> n' = n then Some s else lookup_suffix c i' n')"
  by (auto simp: lookup_suffix_def set_suffix_def update_conv' split: option.splits)

lemma update_same: "map_of al k = Some v \<Longrightarrow> AList.update k v al = al"
  by (induction al) (auto split: if_splits)

lemma set_suffix_same: "lookup_suffix c i n = Some s \<Longrightarrow> set_suffix c i n s = c"
  by (auto simp: lookup_suffix_def set_suffix_def update_same split: option.splits)

lemma load_line_three:
  "split_on (CHR '','') (strip line) = [i, n, s] \<Longrightarrow> load_line c line = set_suffix c i n s"
  by (simp add: load_line_def)

lemma scrape_listing_last:
  "findall_listing listing = ms @ [(n, s)] \<Longrightarrow>
     scrape_listing c i listing
       = set_suffix (foldl (\<lambda>acc m. set_suffix acc i (fst m) (snd m)) c ms) i n s"
  by (simp add: scrape_listing_def)

lemma load_example:
  "load_cache example_cache_text = [(''145'', [(''0000601'', ''EGD3NF'')])]"
  by (simp add: load_cache_def example_cache_text_def load_line_def strip_def is_space_def
      set_suffix_def)

lemma load_twice:
  "load_cache twice_seen_text = [(''145'', [(''0000601'', ''BBB'')])]"
  by (simp add: load_cache_def twice_seen_text_def load_line_def strip_def is_space_def
      set_suffix_def)

lemma load_once:
  "load_cache once_seen_text = [(''145'', [(''0000601'', ''AAA'')])]"
  by (simp add: once_seen_text_def load_cache_def load_line_def strip_def is_space_def
      set_suffix_def)

text \<open>
  C4 (as stated). Once the cache has an entry for a key, no later observation is to overwrite
  its token. Loading a cache file whose first line gives image 0000601 of imageset 145 the
  token AAA and whose second line gives it BBB ends with BBB: the later line has overwritten
  the entry.
\<close>

theorem later_observation_overwrites_counterexample:
  "lookup_suffix (load_cache once_seen_text) ''145'' ''0000601'' = Some ''AAA''
   \<and> twice_seen_text = once_seen_text @ ''145,0000601,BBB'' @ [CHR 0x0A]
   \<and> lookup_suffix (load_cache twice_seen_text) ''145'' ''0000601'' = Some ''BBB''"
proof -
  have "twice_seen_text = once_seen_text @ ''145,0000601,BBB'' @ [CHR 0x0A]"
    by (simp add: twice_seen_text_def once_seen_text_def)
  then show ?thesis by (simp add: load_once load_twice lookup_suffix_def)
qed

text \<open>
  C4 (amended). Within one resolution pass every observation of a key (imageset, image
  number), be it a line of the cache file or a match of a directory listing, stores its token
  under the key, also when the key has an entry already, so the last observation wins; the
  entries of all other keys stay as they are, and an observation equal to the stored entry
  leaves the cache unchanged.
\<close>

theorem last_observation_wins:
  "lookup_suffix (set_suffix c i n s) i n = Some s
   \<and> (\<forall>i' n'. (i', n') \<noteq> (i, n) \<longrightarrow>
         lookup_suffix (set_suffix c i n s) i' n' = lookup_suffix c i' n')
   \<and> (lookup_suffix c i n = Some s \<longrightarrow> set_suffix c i n s = c)
   \<and> (split_on (CHR '','') (strip line) = [i, n, s] \<longrightarrow>
         foldl load_line c (ls @ [line]) = set_suffix (foldl load_line c ls) i n s)
   \<and> (findall_listing listing = ms @ [(n, s)] \<longrightarrow>
         scrape_listing c i listing
           = set_suffix (foldl (\<lambda>acc m. set_suffix acc i (fst m) (snd m)) c ms) i n s)"
  by (auto simp: lookup_set_suffix set_suffix_same load_line_three scrape_listing_last)

theorem last_observation_wins_witness:
  "lookup_suffix (set_suffix [(''145'', [(''0000601'', ''AAA'')])] ''145'' ''0000601'' ''BBB'')
      ''145'' ''0000601'' = Some ''BBB''
   \<and> set_suffix [(''145'', [(''0000601'', ''AAA'')])] ''145'' ''0000601'' ''AAA''
       = [(''145'', [(''0000601'', ''AAA'')])]
   \<and> foldl load_line [] ([''145,0000601,AAA'' @ [CHR 0x0A]] @ [''145,0000601,BBB'' @ [CHR 0x0A]])
       = set_suffix (foldl load_line [] [''145,0000601,AAA'' @ [CHR 0x0A]]) ''145'' ''0000601'' ''BBB''"
proof -
  let ?c = "[(''145'', [(''0000601'', ''AAA'')])]"
  have l: "lookup_suffix ?c ''145'' ''0000601'' = Some ''AAA''"
    by (simp add: lookup_suffix_def)
  have sp: "split_on (CHR '','') (strip (''145,0000601,BBB'' @ [CHR 0x0A]))
      = [''145'', ''0000601'', ''BBB'']"
    by (simp add: strip_def is_space_def)
  from last_observation_wins [of ?c "''145''" "''0000601''" "''BBB''"]
  have 1: "lookup_suffix (set_suffix ?c ''145'' ''0000601'' ''BBB'') ''145'' ''0000601'' = Some ''BBB''"
    by (rule conjunct1)
  from last_observation_wins [of ?c "''145''" "''0000601''" "''AAA''"] l
  have 2: "set_suffix ?c ''145'' ''0000601'' ''AAA'' = ?c" by blast
  from last_observation_wins [of "[]" "''145''" "''0000601''" "''BBB''"
      "''145,0000601,BBB'' @ [CHR 0x0A]" "[''145,0000601,AAA'' @ [CHR 0x0A]]"] sp
  have 3: "foldl load_line [] ([''145,0000601,AAA'' @ [CHR 0x0A]] @ [''145,0000601,BBB'' @ [CHR 0x0A]])
       = set_suffix (foldl load_line [] [''145,0000601,AAA'' @ [CHR 0x0A]]) ''145'' ''0000601'' ''BBB''"
    by blast
  from 1 2 3 show ?thesis by blast
qed

text \<open>
  C6. When the cache file exists, \<^verbatim>\<open>get_image_suffixes\<close> returns the mapping loaded from
  it, opens no URL and leaves the disk as it is; a key that is not in the cache is absent
  from the mapping, and a line with such a key is written back unchanged, nothing being
  fetched for it.
\<close>

theorem cache_file_serves_all:
  assumes "p \<noteq> []" and "disk p = Some content"
  shows "get_image_suffixes urlopen disk base_url (Some p)
           = \<lparr>suffixes_of = load_cache content, cache_disk = disk, listing_requests = []\<rparr>
       \<and> (search_url line = Some (i, n) \<and> lookup_suffix (load_cache content) i n = None
            \<longrightarrow> update_line (load_cache content) line = Inr line)"
  using assms by (simp add: get_image_suffixes_def update_line_def)

lemma search_999:
  "search_url ''images/1_145/image-0000999.jpg'' = Some (''145'', ''0000999'')"
  by (simp add: match_url_at_def strip_prefix_def plus1_def is_digit_def)

theorem cache_file_serves_all_witness:
  "get_image_suffixes no_network example_disk ''https://prism-static.aruw.org/images/''
      (Some ''image_suffixes.cache'')
     = \<lparr>suffixes_of = [(''145'', [(''0000601'', ''EGD3NF'')])], cache_disk = example_disk,
        listing_requests = []\<rparr>
   \<and> update_line (load_cache example_cache_text) ''images/1_145/image-0000999.jpg''
     = Inr ''images/1_145/image-0000999.jpg''"
proof -
  have p: "''image_suffixes.cache'' \<noteq> []" by simp
  have d: "example_disk ''image_suffixes.cache'' = Some example_cache_text"
    by (simp add: example_disk_def)
  have m: "lookup_suffix (load_cache example_cache_text) ''145'' ''0000999'' = None"
    by (simp add: load_example lookup_suffix_def)
  from cache_file_serves_all [where p = "''image_suffixes.cache''" and disk = example_disk
      and content = example_cache_text and urlopen = no_network
      and base_url = "''https://prism-static.aruw.org/images/''"
      and line = "''images/1_145/image-0000999.jpg''" and i = "''145''" and n = "''0000999''",
      OF p d] search_999 m
  show ?thesis by (simp add: load_example)
qed

section \<open>Saving and loading the cache\<close>




























section \<open>Rewriting the URL list\<close>























end
